theory Spec2Isabelle
  imports Main "HOL-Library.Word"
begin

section \<open>Data model of \<^verbatim>\<open>mipsevm/solutil.go\<close>\<close>

text \<open>
  Go's \<^verbatim>\<open>int32\<close> and \<^verbatim>\<open>uint32\<close> are 32-bit words (read with \<open>sint\<close> and \<open>unat\<close>),
  a \<^verbatim>\<open>byte\<close> of bytecode is an 8-bit word, a Go string is a list of bytes
  (\<open>string\<close>, one \<open>char\<close> per byte), and a slice is a list. A slice that may be
  \<^verbatim>\<open>nil\<close> is an option: \<open>None\<close> is \<^verbatim>\<open>nil\<close>, \<open>Some []\<close> is the empty slice that
  \<^verbatim>\<open>make\<close> returns.
\<close>

type_synonym int32 = "32 word"
type_synonym uint32 = "32 word"
type_synonym byte = "8 word"

record LineCol =
  Line :: uint32
  Col :: uint32

record InstrMapping =
  S :: int32
  L :: int32
  F :: int32
  J :: char
  M :: int32

record SourceMap =
  Sources :: "string list"
  PosData :: "LineCol list option list"
  Instr :: "InstrMapping list"

text \<open>The zero values \<^verbatim>\<open>LineCol{}\<close> and \<^verbatim>\<open>InstrMapping{}\<close>.\<close>

definition zeroLineCol :: LineCol where
  "zeroLineCol = \<lparr>Line = 0, Col = 0\<rparr>"

definition zeroInstr :: InstrMapping where
  "zeroInstr = \<lparr>S = 0, L = 0, F = 0, J = CHR 0x00, M = 0\<rparr>"

section \<open>The library functions the code calls\<close>

subsection \<open>\<^verbatim>\<open>strings.Split\<close> and \<^verbatim>\<open>strings.HasPrefix\<close>\<close>

text \<open>
  \<^verbatim>\<open>strings.Split(s, sep)\<close> for a separator of one byte, which is what both call
  sites pass (\<^verbatim>\<open>":"\<close> and \<^verbatim>\<open>";"\<close>): the pieces between the separators, in order.
  The empty string gives one empty piece.
\<close>

fun Split :: "string \<Rightarrow> char \<Rightarrow> string list" where
  "Split [] sep = [[]]"
| "Split (c # cs) sep =
     (if c = sep then [] # Split cs sep
      else (case Split cs sep of
              [] \<Rightarrow> [[c]]
            | piece # pieces \<Rightarrow> (c # piece) # pieces))"

definition HasPrefix :: "string \<Rightarrow> string \<Rightarrow> bool" where
  "HasPrefix s p = (length p \<le> length s \<and> take (length p) s = p)"

subsection \<open>\<^verbatim>\<open>strconv.ParseInt(x, 10, 32)\<close>\<close>

text \<open>
  The error of \<^verbatim>\<open>strconv\<close> is a \<^verbatim>\<open>*NumError{Func, Num, Err}\<close>: the function's
  name, the string that was parsed, and \<^verbatim>\<open>ErrSyntax\<close> or \<^verbatim>\<open>ErrRange\<close>.
  The errors of \<^verbatim>\<open>parseInstrMapping\<close> are that one and
  \<^verbatim>\<open>fmt.Errorf("unexpected length: %d", len(data))\<close>. Go's \<^verbatim>\<open>nil\<close> error is \<open>None\<close>.
\<close>

datatype num_err = ErrSyntax | ErrRange

datatype parse_error =
    UnexpectedLength nat
  | NumError string string num_err

text \<open>
  \<^verbatim>\<open>ParseUint(s, 10, 32)\<close> reads the bytes from the left into a \<^verbatim>\<open>uint64\<close>. A byte
  that is no decimal digit is a syntax error (a letter is a digit of value 10 or more,
  which base 10 refuses; an underscore is accepted for base 0 only). A value above
  \<open>2^32 - 1\<close> is a range error, returned at once with the value \<open>2^32 - 1\<close>, before
  the bytes that follow are read.
\<close>

fun ParseUint_loop :: "string \<Rightarrow> nat \<Rightarrow> nat \<times> num_err option" where
  "ParseUint_loop [] n = (n, None)"
| "ParseUint_loop (c # cs) n =
     (if 48 \<le> (of_char c :: nat) \<and> (of_char c :: nat) \<le> 57 then
        (let d = (of_char c :: nat) - 48 in
         if n \<ge> (2 ^ 64 - 1) div 10 + 1 then (2 ^ 32 - 1, Some ErrRange)
         else
           (let n10 = (n * 10) mod 2 ^ 64;
                n1 = (n10 + d) mod 2 ^ 64
            in if n1 < n10 \<or> n1 > 2 ^ 32 - 1 then (2 ^ 32 - 1, Some ErrRange)
               else ParseUint_loop cs n1))
      else (0, Some ErrSyntax))"

definition ParseUint :: "string \<Rightarrow> nat \<times> num_err option" where
  "ParseUint s = (if s = [] then (0, Some ErrSyntax) else ParseUint_loop s 0)"

text \<open>
  \<^verbatim>\<open>ParseInt(s, 10, 32)\<close>: an optional sign, then \<^verbatim>\<open>ParseUint\<close>. A syntax error
  returns 0; a value out of the range of \<^verbatim>\<open>int32\<close> returns the nearest bound and a
  range error. Both errors carry the whole string \<open>s\<close>, sign included.
\<close>

definition ParseInt :: "string \<Rightarrow> int \<times> parse_error option" where
  "ParseInt s =
     (if s = [] then (0, Some (NumError ''ParseInt'' s ErrSyntax))
      else
        (let neg = (hd s = CHR ''-'');
             s1 = (if hd s = CHR ''+'' then tl s else if hd s = CHR ''-'' then tl s else s)
         in case ParseUint s1 of
              (un, Some ErrSyntax) \<Rightarrow> (0, Some (NumError ''ParseInt'' s ErrSyntax))
            | (un, _) \<Rightarrow>
                if \<not> neg \<and> un \<ge> 2 ^ 31 then (2 ^ 31 - 1, Some (NumError ''ParseInt'' s ErrRange))
                else if neg \<and> un > 2 ^ 31 then (- (2 ^ 31), Some (NumError ''ParseInt'' s ErrRange))
                else (if neg then - int un else int un, None)))"

section \<open>The Mapping Decoder: \<^verbatim>\<open>parseInstrMapping\<close>\<close>

text \<open>
  The closure \<^verbatim>\<open>parse\<close> stores the error of \<^verbatim>\<open>ParseInt\<close> in \<^verbatim>\<open>err\<close> and returns
  \<^verbatim>\<open>int32(p)\<close>; here it returns both.
\<close>

definition parse :: "string \<Rightarrow> int32 \<times> parse_error option" where
  "parse x = (case ParseInt x of (p, e) \<Rightarrow> (word_of_int p, e))"

text \<open>
  The parameter \<^verbatim>\<open>last\<close> is \<open>lastInstr\<close> here, the name its caller gives it.
  The function returns the pair \<^verbatim>\<open>(out, err)\<close> as Go does: on an error \<open>out\<close> is the
  record as far as it was filled in.
\<close>

definition parseInstrMapping :: "InstrMapping \<Rightarrow> string \<Rightarrow> InstrMapping \<times> parse_error option" where
  "parseInstrMapping lastInstr v =
     (let data = Split v CHR '':''; out = lastInstr in
      if length data < 1 then (out, None)
      else if length data > 5 then (out, Some (UnexpectedLength (length data)))
      else
        (let (out, err) =
               (if data ! 0 \<noteq> [] then (case parse (data ! 0) of (p, e) \<Rightarrow> (out\<lparr>S := p\<rparr>, e))
                else (out, None))
         in if length data < 2 \<or> err \<noteq> None then (out, err)
            else
        (let (out, err) =
               (if data ! 1 \<noteq> [] then (case parse (data ! 1) of (p, e) \<Rightarrow> (out\<lparr>L := p\<rparr>, e))
                else (out, err))
         in if length data < 3 \<or> err \<noteq> None then (out, err)
            else
        (let (out, err) =
               (if data ! 2 \<noteq> [] then (case parse (data ! 2) of (p, e) \<Rightarrow> (out\<lparr>F := p\<rparr>, e))
                else (out, err))
         in if length data < 4 \<or> err \<noteq> None then (out, err)
            else
        (let out = (if data ! 3 \<noteq> [] then out\<lparr>J := data ! 3 ! 0\<rparr> else out)
         in if length data < 5 \<or> err \<noteq> None then (out, err)
            else
        (let (out, err) =
               (if data ! 4 \<noteq> [] then (case parse (data ! 4) of (p, e) \<Rightarrow> (out\<lparr>M := p\<rparr>, e))
                else (out, err))
         in (out, err)))))))"

section \<open>The Position Indexer\<close>

text \<open>
  \<^verbatim>\<open>for i, b := range datStr\<close> iterates over the runes of the string, not over its
  bytes: \<open>i\<close> is the byte offset at which a rune starts and \<open>b\<close> is the rune. The Go
  runtime decodes a byte below \<open>0x80\<close> as itself, and a longer UTF-8 sequence by
  \<^verbatim>\<open>decoderune\<close>; an invalid sequence is the rune \<open>0xFFFD\<close> of width 1.
  \<open>decoderune s\<close> is the rune at the head of \<open>s\<close> and its width in bytes.
\<close>

definition runeError :: nat where
  "runeError = 0xFFFD"

definition contByte :: "string \<Rightarrow> nat \<Rightarrow> bool" where
  "contByte s k = (0x80 \<le> (of_char (s ! k) :: nat) \<and> (of_char (s ! k) :: nat) \<le> 0xBF)"

definition decoderune :: "string \<Rightarrow> nat \<times> nat" where
  "decoderune s =
     (if s = [] then (runeError, 1)
      else
        (let b0 = (of_char (s ! 0) :: nat) in
         if b0 < 0x80 then (b0, 1)
         else if 0xC0 \<le> b0 \<and> b0 < 0xE0 then
           (if length s > 1 \<and> contByte s 1 then
              (let r = (b0 mod 32) * 64 + (of_char (s ! 1) :: nat) mod 64
               in if 0x7F < r then (r, 2) else (runeError, 1))
            else (runeError, 1))
         else if 0xE0 \<le> b0 \<and> b0 < 0xF0 then
           (if length s > 2 \<and> contByte s 1 \<and> contByte s 2 then
              (let r = (b0 mod 16) * 4096 + ((of_char (s ! 1) :: nat) mod 64) * 64
                       + (of_char (s ! 2) :: nat) mod 64
               in if 0x7FF < r \<and> \<not> (0xD800 \<le> r \<and> r \<le> 0xDFFF) then (r, 3)
                  else (runeError, 1))
            else (runeError, 1))
         else if 0xF0 \<le> b0 \<and> b0 < 0xF8 then
           (if length s > 3 \<and> contByte s 1 \<and> contByte s 2 \<and> contByte s 3 then
              (let r = (b0 mod 8) * 262144 + ((of_char (s ! 1) :: nat) mod 64) * 4096
                       + ((of_char (s ! 2) :: nat) mod 64) * 64 + (of_char (s ! 3) :: nat) mod 64
               in if 0xFFFF < r \<and> r \<le> 0x10FFFF then (r, 4) else (runeError, 1))
            else (runeError, 1))
         else (runeError, 1)))"

lemma decoderune_width: "0 < snd (decoderune s)"
  by (simp add: decoderune_def Let_def)

text \<open>
  The inner loop of \<^verbatim>\<open>ParseSourceMap\<close> (lines 131 to 141): \<open>out\<close> has one entry per
  byte, made of zero values; the entry at the offset of each rune is written, with
  \<^verbatim>\<open>col := uint32(i) - lastLinePos\<close> in 32-bit arithmetic; a newline sets
  \<^verbatim>\<open>lastLinePos = uint32(i)\<close> and adds 1 to \<^verbatim>\<open>line\<close>. The write \<^verbatim>\<open>out[i]\<close> is
  within \<open>out\<close>, whose length is that of the string.
\<close>

function posLoop :: "string \<Rightarrow> nat \<Rightarrow> uint32 \<Rightarrow> uint32 \<Rightarrow> LineCol list \<Rightarrow> LineCol list" where
  "posLoop datStr i line lastLinePos out =
     (if i < length datStr then
        (let (b, w) = decoderune (drop i datStr);
             col = of_nat i - lastLinePos;
             out1 = out[i := \<lparr>Line = line, Col = col\<rparr>]
         in if b = 10 then posLoop datStr (i + w) (line + 1) (of_nat i) out1
            else posLoop datStr (i + w) line lastLinePos out1)
      else out)"
  by pat_completeness auto
termination
proof (relation "measure (\<lambda>(datStr, i, line, lastLinePos, out). length datStr - i)", goal_cases)
  case 1
  show ?case by simp
next
  case (2 datStr i line lastLinePos out x b w)
  then have "0 < w" by (metis decoderune_width snd_conv)
  with 2 show ?case by simp
next
  case (3 datStr i line lastLinePos out x b w)
  then have "0 < w" by (metis decoderune_width snd_conv)
  with 3 show ?case by simp
qed

declare posLoop.simps [simp del]

definition indexPositions :: "string \<Rightarrow> LineCol list" where
  "indexPositions datStr = posLoop datStr 0 1 0 (replicate (length datStr) zeroLineCol)"

section \<open>Building the source map: \<^verbatim>\<open>ParseSourceMap\<close>\<close>

text \<open>
  \<^verbatim>\<open>os.ReadFile\<close> is the file system, a parameter: a path gives the file's bytes or
  the error of the read (a \<^verbatim>\<open>*PathError{Op, Path, Err}\<close>). The errors of the build
  are \<^verbatim>\<open>fmt.Errorf("failed to read source %d %q: %w", i, s, err)\<close> and
  \<^verbatim>\<open>fmt.Errorf("failed to parse instr element in source map: %w", err)\<close>: each
  constructor holds the arguments of its format string.
\<close>

datatype os_error = PathError string string string

type_synonym filesystem = "string \<Rightarrow> os_error + string"

datatype build_error =
    ReadSourceFailed nat string os_error
  | ParseInstrFailed parse_error

text \<open>The loop over \<^verbatim>\<open>sources\<close> (lines 120 to 143); \<open>posData\<close> is \<^verbatim>\<open>srcMap.PosData\<close>.\<close>

fun readSources ::
  "filesystem \<Rightarrow> string list \<Rightarrow> nat \<Rightarrow> LineCol list option list
     \<Rightarrow> build_error + LineCol list option list" where
  "readSources fs [] i posData = Inr posData"
| "readSources fs (s # ss) i posData =
     (if HasPrefix s ''~'' then readSources fs ss (i + 1) (posData @ [None])
      else (case fs s of
              Inl err \<Rightarrow> Inl (ReadSourceFailed i s err)
            | Inr dat \<Rightarrow> readSources fs ss (i + 1) (posData @ [Some (indexPositions dat)])))"

text \<open>
  The length of the instruction at an opcode (lines 151 to 155): 1, and for a push
  opcode the push data, \<^verbatim>\<open>pushDataLen := inst - 0x60 + 1\<close> in byte arithmetic.
\<close>

definition instLen :: "byte \<Rightarrow> nat" where
  "instLen inst =
     (if inst \<ge> 0x60 \<and> inst \<le> 0x7f then 1 + unat (inst - 0x60 + 1) else 1)"

text \<open>
  The value of \<^verbatim>\<open>instMapping\<close> (lines 157 to 164): the record at \<^verbatim>\<open>instIndex\<close>,
  and the empty string, the zero value of the declaration, when the records have run
  out. The source prints \<^verbatim>\<open>out of instructions\<close> to standard output there, which
  is no part of the result.
\<close>

definition instMappingAt :: "string list \<Rightarrow> nat \<Rightarrow> string" where
  "instMappingAt instructions instIndex =
     (if instIndex \<ge> length instructions then [] else instructions ! instIndex)"

text \<open>
  The loop over the bytecode (lines 149 to 175); \<open>instr\<close> is \<^verbatim>\<open>srcMap.Instr\<close>.
  The variable \<^verbatim>\<open>lastInstr\<close> is assigned once, before the loop, and nowhere in it:
  every iteration passes the same value to \<^verbatim>\<open>parseInstrMapping\<close>.
\<close>

function expandLoop ::
  "string list \<Rightarrow> byte list \<Rightarrow> nat \<Rightarrow> nat \<Rightarrow> InstrMapping \<Rightarrow> InstrMapping list
     \<Rightarrow> build_error + InstrMapping list" where
  "expandLoop instructions bytecode i instIndex lastInstr instr =
     (if i < length bytecode then
        (let inst = bytecode ! i;
             instMapping = instMappingAt instructions instIndex
         in case parseInstrMapping lastInstr instMapping of
              (m, Some err) \<Rightarrow> Inl (ParseInstrFailed err)
            | (m, None) \<Rightarrow>
                expandLoop instructions bytecode (i + instLen inst) (instIndex + 1) lastInstr
                  (instr @ replicate (instLen inst) m))
      else Inr instr)"
  by pat_completeness auto
termination
  by (relation "measure (\<lambda>(instructions, bytecode, i, instIndex, lastInstr, instr). length bytecode - i)")
     (auto simp: instLen_def)

declare expandLoop.simps [simp del]

definition ParseSourceMap ::
  "filesystem \<Rightarrow> string list \<Rightarrow> byte list \<Rightarrow> string \<Rightarrow> build_error + SourceMap" where
  "ParseSourceMap fs sources bytecode sourceMap =
     (let instructions = Split sourceMap CHR '';'' in
      case readSources fs sources 0 [] of
        Inl err \<Rightarrow> Inl err
      | Inr posData \<Rightarrow>
          (case expandLoop instructions bytecode 0 0 zeroInstr [] of
             Inl err \<Rightarrow> Inl err
           | Inr instr \<Rightarrow> Inr \<lparr>Sources = sources, PosData = posData, Instr = instr\<rparr>))"

section \<open>Lookup: \<^verbatim>\<open>Info\<close>\<close>

text \<open>
  An index expression out of range is a run-time panic, a result of its own here.
  The result of \<^verbatim>\<open>Info\<close> is \<^verbatim>\<open>(source, line, col)\<close>; a bare \<^verbatim>\<open>return\<close> returns
  the named results as they are, zero where nothing was assigned.
\<close>

datatype panic = IndexOutOfRange int nat

definition Info :: "SourceMap \<Rightarrow> 64 word \<Rightarrow> panic + (string \<times> uint32 \<times> uint32)" where
  "Info s pc =
     (if unat pc \<ge> length (Instr s) then Inl (IndexOutOfRange (uint pc) (length (Instr s)))
      else
        (let instr = Instr s ! unat pc in
         if sint (F instr) < 0 then Inr ([], 0, 0)
         else if sint (F instr) \<ge> sint (of_nat (length (Sources s)) :: int32) then Inr (''unknown'', 0, 0)
         else if nat (sint (F instr)) \<ge> length (Sources s)
           then Inl (IndexOutOfRange (sint (F instr)) (length (Sources s)))
         else
           (let source = Sources s ! nat (sint (F instr)) in
            if sint (S instr) < 0 then Inr (source, 0, 0)
            else if nat (sint (F instr)) \<ge> length (PosData s)
              then Inl (IndexOutOfRange (sint (F instr)) (length (PosData s)))
            else
              (case PosData s ! nat (sint (F instr)) of
                 None \<Rightarrow> Inr (source, 0, 0)
               | Some tbl \<Rightarrow>
                   if nat (sint (S instr)) \<ge> length tbl
                     then Inl (IndexOutOfRange (sint (S instr)) (length tbl))
                   else (let lc = tbl ! nat (sint (S instr)) in Inr (source, Line lc, Col lc))))))"

section \<open>Inputs of the examples\<close>

text \<open>A file system with no file, and one whose only file \<^verbatim>\<open>a.sol\<close> holds \<^verbatim>\<open>"ab\ncd"\<close>.\<close>

definition no_files :: filesystem where
  "no_files p = Inl (PathError ''open'' p ''no such file or directory'')"

definition one_file :: filesystem where
  "one_file p =
     (if p = ''a.sol'' then Inr [CHR ''a'', CHR ''b'', CHR 0x0A, CHR ''c'', CHR ''d'']
      else Inl (PathError ''open'' p ''no such file or directory''))"

text \<open>
  The file system \<open>one_file\<close> with a second file under a name that starts with the
  sentinel.
\<close>

definition two_files :: filesystem where
  "two_files p = (if p = ''~gen'' then Inr ''zz'' else one_file p)"

text \<open>The position table that the Position Indexer builds for \<^verbatim>\<open>a.sol\<close>.\<close>

definition example_positions :: "LineCol list" where
  "example_positions =
     [\<lparr>Line = 1, Col = 0\<rparr>, \<lparr>Line = 1, Col = 1\<rparr>, \<lparr>Line = 1, Col = 2\<rparr>,
      \<lparr>Line = 2, Col = 1\<rparr>, \<lparr>Line = 2, Col = 2\<rparr>]"

text \<open>
  Three source maps: the one built from the sources \<^verbatim>\<open>~gen\<close> and \<^verbatim>\<open>a.sol\<close>, one
  byte of bytecode and the mapping \<^verbatim>\<open>"0:1:1"\<close>; the one built from \<^verbatim>\<open>a.sol\<close>, one
  byte of bytecode and the mapping \<^verbatim>\<open>"5:1:0"\<close>, whose start offset 5 is the length
  of the file; and one whose only record has the file index 7.
\<close>

definition example_map :: SourceMap where
  "example_map =
     \<lparr>Sources = [''~gen'', ''a.sol''], PosData = [None, Some example_positions],
      Instr = [\<lparr>S = 0, L = 1, F = 1, J = CHR 0x00, M = 0\<rparr>]\<rparr>"

definition start_past_end_map :: SourceMap where
  "start_past_end_map =
     \<lparr>Sources = [''a.sol''], PosData = [Some example_positions],
      Instr = [\<lparr>S = 5, L = 1, F = 0, J = CHR 0x00, M = 0\<rparr>]\<rparr>"

definition unknown_file_map :: SourceMap where
  "unknown_file_map =
     \<lparr>Sources = [''~gen''], PosData = [None],
      Instr = [\<lparr>S = 0, L = 0, F = 7, J = CHR 0x00, M = 0\<rparr>]\<rparr>"

text \<open>
  The instruction table of the bytecode \<open>0x61 0xAA 0xBB 0x00\<close> (a push of two bytes,
  then a one-byte instruction) with the records \<^verbatim>\<open>"1"\<close> and \<^verbatim>\<open>"3"\<close>.
\<close>

definition expanded_example :: "InstrMapping list" where
  "expanded_example =
     [\<lparr>S = 1, L = 0, F = 0, J = CHR 0x00, M = 0\<rparr>, \<lparr>S = 1, L = 0, F = 0, J = CHR 0x00, M = 0\<rparr>,
      \<lparr>S = 1, L = 0, F = 0, J = CHR 0x00, M = 0\<rparr>, \<lparr>S = 3, L = 0, F = 0, J = CHR 0x00, M = 0\<rparr>]"



section \<open>Auxiliary facts\<close>


lemma decode_empty: "parseInstrMapping lastInstr [] = (lastInstr, None)"
  by (simp add: parseInstrMapping_def)

lemma sint_of_nat_le: "sint (of_nat n :: 32 word) \<le> int n"
proof -
  have "(- (2 ^ 31) :: int) \<le> uint (of_nat n :: 32 word)"
    by (rule order_trans [of _ 0]) simp_all
  then have "sint (of_nat n :: 32 word) \<le> uint (of_nat n :: 32 word)"
    by (simp add: sint_uint signed_take_bit_int_less_eq_self_iff) 
  also have "\<dots> \<le> int n"
    by (simp add: uint_nat unat_of_nat)
  finally show ?thesis .
qed

lemma sint_of_nat_small: "int n < 2 ^ 31 \<Longrightarrow> sint (of_nat n :: 32 word) = int n"
  by (simp add: signed_of_nat signed_take_bit_int_eq_self)

lemma readSources_Inr:
  "readSources fs ss i pd = Inr r \<Longrightarrow>
     r = pd @ map (\<lambda>s. if HasPrefix s ''~'' then None else Some (indexPositions (projr (fs s)))) ss"
proof (induction ss arbitrary: i pd)
  case Nil
  then show ?case by simp
next
  case (Cons s ss)
  show ?case
  proof (cases "HasPrefix s ''~''")
    case True
    with Cons.prems have "readSources fs ss (i + 1) (pd @ [None]) = Inr r" by simp
    from Cons.IH [OF this] True show ?thesis by simp
  next
    case False
    with Cons.prems obtain dat where dat: "fs s = Inr dat"
      and "readSources fs ss (i + 1) (pd @ [Some (indexPositions dat)]) = Inr r"
      by (auto split: sum.splits)
    from Cons.IH [OF this(2)] False dat show ?thesis by simp
  qed
qed

lemma readSources_cong:
  "(\<And>s. s \<in> set ss \<Longrightarrow> \<not> HasPrefix s ''~'' \<Longrightarrow> fs' s = fs s) \<Longrightarrow>
     readSources fs' ss i pd = readSources fs ss i pd"
  by (induction ss arbitrary: i pd) (auto split: if_splits sum.splits)

lemma expandLoop_step:
  assumes "i < length bytecode"
    and "parseInstrMapping lastInstr (instMappingAt instructions instIndex) = (m, None)"
  shows "expandLoop instructions bytecode i instIndex lastInstr instr =
         expandLoop instructions bytecode (i + instLen (bytecode ! i)) (instIndex + 1) lastInstr
           (instr @ replicate (instLen (bytecode ! i)) m)"
  using assms by (subst expandLoop.simps) (simp add: Let_def)

lemma expandLoop_error:
  assumes "i < length bytecode"
    and "parseInstrMapping lastInstr (instMappingAt instructions instIndex) = (m, Some err)"
  shows "expandLoop instructions bytecode i instIndex lastInstr instr = Inl (ParseInstrFailed err)"
  using assms by (subst expandLoop.simps) (simp add: Let_def)

lemma expandLoop_done:
  "\<not> i < length bytecode \<Longrightarrow> expandLoop instructions bytecode i instIndex lastInstr instr = Inr instr"
  by (subst expandLoop.simps) simp

lemma expandLoop_Inr_parse:
  assumes "i < length bytecode"
    and "expandLoop instructions bytecode i instIndex lastInstr instr = Inr res"
  shows "\<exists>m. parseInstrMapping lastInstr (instMappingAt instructions instIndex) = (m, None)"
proof -
  obtain m e where p: "parseInstrMapping lastInstr (instMappingAt instructions instIndex) = (m, e)"
    by (cases "parseInstrMapping lastInstr (instMappingAt instructions instIndex)")
  show ?thesis
  proof (cases e)
    case None
    with p show ?thesis by simp
  next
    case (Some err)
    with p assms(1) have "expandLoop instructions bytecode i instIndex lastInstr instr = Inl (ParseInstrFailed err)"
      by (simp add: expandLoop_error)
    with assms(2) show ?thesis by simp
  qed
qed

lemma expandLoop_prefix:
  "expandLoop instructions bytecode i instIndex lastInstr instr = Inr res \<Longrightarrow> take (length instr) res = instr"
proof (induction instructions bytecode i instIndex lastInstr instr rule: expandLoop.induct)
  case (1 instructions bytecode i instIndex lastInstr instr)
  show ?case
  proof (cases "i < length bytecode")
    case False
    with "1.prems" show ?thesis by (simp add: expandLoop_done)
  next
    case True
    from expandLoop_Inr_parse [OF True "1.prems"]
    obtain m where p: "parseInstrMapping lastInstr (instMappingAt instructions instIndex) = (m, None)" ..
    let ?n = "instLen (bytecode ! i)"
    from "1.prems" have step: "expandLoop instructions bytecode (i + ?n) (instIndex + 1) lastInstr
                 (instr @ replicate ?n m) = Inr res"
      by (simp add: expandLoop_step [OF True p])
    have "take (length (instr @ replicate ?n m)) res = instr @ replicate ?n m"
      by (rule "1.IH" [OF True refl refl p [symmetric] refl step])
    then have "take (length instr) (take (length (instr @ replicate ?n m)) res) = instr"
      by simp
    then show ?thesis by (simp add: min_def)
  qed
qed

lemma expandLoop_written_nth:
  assumes "i < length bytecode"
    and "parseInstrMapping lastInstr (instMappingAt instructions instIndex) = (m, None)"
    and "expandLoop instructions bytecode i instIndex lastInstr instr = Inr res"
    and "j < instLen (bytecode ! i)"
  shows "res ! (length instr + j) = m"
proof -
  let ?n = "instLen (bytecode ! i)"
  from assms(3) have "expandLoop instructions bytecode (i + ?n) (instIndex + 1) lastInstr
                 (instr @ replicate ?n m) = Inr res"
    by (simp add: expandLoop_step [OF assms(1,2)])
  then have t: "take (length instr + ?n) res = instr @ replicate ?n m"
    using expandLoop_prefix [of instructions bytecode "i + ?n" "instIndex + 1" lastInstr
        "instr @ replicate ?n m" res]
    by simp
  from assms(4) have "res ! (length instr + j) = take (length instr + ?n) res ! (length instr + j)"
    by simp
  also have "\<dots> = (instr @ replicate ?n m) ! (length instr + j)"
    by (simp only: t)
  also from assms(4) have "\<dots> = m"
    by (simp add: nth_append)
  finally show ?thesis .
qed

lemma instLen_push:
  assumes "k \<le> 31"
  shows "instLen (0x60 + of_nat k) = 2 + k"
proof -
  from assms have u: "unat (0x60 + of_nat k :: byte) = 96 + k"
    by (simp add: unat_word_ariths unat_of_nat)
  from assms have v: "unat (of_nat k + 1 :: byte) = k + 1"
    by (simp add: unat_word_ariths unat_of_nat)
  have lo: "(0x60 :: byte) \<le> 0x60 + of_nat k"
    using u by (simp add: word_le_nat_alt)
  have hi: "0x60 + of_nat k \<le> (0x7f :: byte)"
    using u assms by (simp add: word_le_nat_alt)
  show ?thesis
    using lo hi v by (simp add: instLen_def)
qed

lemma instLen_other: "b < 0x60 \<or> 0x7f < b \<Longrightarrow> instLen b = 1"
  by (auto simp: instLen_def)

subsection \<open>The decoder on the records of the examples\<close>

lemma ParseInt_digits:
  "ParseInt ''0'' = (0, None)" "ParseInt ''1'' = (1, None)" "ParseInt ''2'' = (2, None)"
  "ParseInt ''3'' = (3, None)" "ParseInt ''5'' = (5, None)"
  by (simp_all add: ParseInt_def ParseUint_def Let_def)

lemma ParseInt_x: "ParseInt ''x'' = (0, Some (NumError ''ParseInt'' ''x'' ErrSyntax))"
  by (simp add: ParseInt_def ParseUint_def Let_def)

lemma decode_examples:
  "parseInstrMapping zeroInstr ''1:2:0:-:0'' = (\<lparr>S = 1, L = 2, F = 0, J = CHR ''-'', M = 0\<rparr>, None)"
  "parseInstrMapping zeroInstr '':::i:'' = (\<lparr>S = 0, L = 0, F = 0, J = CHR ''i'', M = 0\<rparr>, None)"
  "parseInstrMapping zeroInstr ''3'' = (\<lparr>S = 3, L = 0, F = 0, J = CHR 0x00, M = 0\<rparr>, None)"
  "parseInstrMapping zeroInstr ''5:1:0'' = (\<lparr>S = 5, L = 1, F = 0, J = CHR 0x00, M = 0\<rparr>, None)"
  "parseInstrMapping zeroInstr ''0:1:1'' = (\<lparr>S = 0, L = 1, F = 1, J = CHR 0x00, M = 0\<rparr>, None)"
  "parseInstrMapping zeroInstr ''1'' = (\<lparr>S = 1, L = 0, F = 0, J = CHR 0x00, M = 0\<rparr>, None)"
  "parseInstrMapping zeroInstr ''x'' = (\<lparr>S = 0, L = 0, F = 0, J = CHR 0x00, M = 0\<rparr>, Some (NumError ''ParseInt'' ''x'' ErrSyntax))"
  "parseInstrMapping zeroInstr ''2:x:3'' = (\<lparr>S = 2, L = 0, F = 0, J = CHR 0x00, M = 0\<rparr>, Some (NumError ''ParseInt'' ''x'' ErrSyntax))"
  "parseInstrMapping zeroInstr ''x:::::'' = (zeroInstr, Some (UnexpectedLength 6))"
  by (simp_all add: parseInstrMapping_def parse_def ParseInt_digits ParseInt_x zeroInstr_def)

lemma decode_threaded:
  "parseInstrMapping zeroInstr ''1:2:0:-:0'' = (\<lparr>S = 1, L = 2, F = 0, J = CHR ''-'', M = 0\<rparr>, None)"
  "parseInstrMapping \<lparr>S = 1, L = 2, F = 0, J = CHR ''-'', M = 0\<rparr> '':::i:'' = (\<lparr>S = 1, L = 2, F = 0, J = CHR ''i'', M = 0\<rparr>, None)"
  "parseInstrMapping \<lparr>S = 1, L = 2, F = 0, J = CHR ''i'', M = 0\<rparr> ''3'' = (\<lparr>S = 3, L = 2, F = 0, J = CHR ''i'', M = 0\<rparr>, None)"
  by (simp_all add: parseInstrMapping_def parse_def ParseInt_digits zeroInstr_def)

subsection \<open>A record that fails to decode\<close>








subsection \<open>The source maps of the examples\<close>

lemma indexPositions_example:
  "indexPositions [CHR ''a'', CHR ''b'', CHR 0x0A, CHR ''c'', CHR ''d''] = example_positions"
  by (simp add: indexPositions_def posLoop.simps decoderune_def zeroLineCol_def example_positions_def)

lemma build_example_map:
  "ParseSourceMap one_file [''~gen'', ''a.sol''] [0x00] ''0:1:1'' = Inr example_map"
  "ParseSourceMap two_files [''~gen'', ''a.sol''] [0x00] ''0:1:1'' = Inr example_map"
  by (simp_all add: ParseSourceMap_def HasPrefix_def one_file_def two_files_def indexPositions_example
        expandLoop.simps instMappingAt_def instLen_def decode_examples example_map_def)

lemma build_start_past_end_map:
  "ParseSourceMap one_file [''a.sol''] [0x00] ''5:1:0'' = Inr start_past_end_map"
  by (simp add: ParseSourceMap_def HasPrefix_def one_file_def indexPositions_example
        expandLoop.simps instMappingAt_def instLen_def decode_examples start_past_end_map_def)

lemma Info_start_out_of_range:
  assumes "unat pc < length (Instr s)"
    and "0 \<le> sint (F (Instr s ! unat pc))"
    and "sint (F (Instr s ! unat pc)) < sint (of_nat (length (Sources s)) :: int32)"
    and "nat (sint (F (Instr s ! unat pc))) < length (PosData s)"
    and "PosData s ! nat (sint (F (Instr s ! unat pc))) = Some tbl"
    and "0 \<le> sint (S (Instr s ! unat pc))"
    and "length tbl \<le> nat (sint (S (Instr s ! unat pc)))"
  shows "Info s pc = Inl (IndexOutOfRange (sint (S (Instr s ! unat pc))) (length tbl))"
proof -
  from assms(2,3) have "nat (sint (F (Instr s ! unat pc))) < length (Sources s)"
    using sint_of_nat_le [of "length (Sources s)"] by linarith
  with assms show ?thesis
    by (simp add: Info_def Let_def)
qed

lemma expand_example:
  "expandLoop [''1'', ''3''] [0x61, 0xAA, 0xBB, 0x00] 3 1 zeroInstr (take 3 expanded_example) =
     Inr expanded_example"
  "expandLoop [''1'', ''3''] [0x61, 0xAA, 0xBB, 0x00] 0 0 zeroInstr [] = Inr expanded_example"
  by (simp_all add: expandLoop.simps instMappingAt_def instLen_def decode_examples
        expanded_example_def)

section \<open>Properties of the decoder\<close>

text \<open>
  C9. For every carried record \<open>lastInstr\<close> (the parameter \<^verbatim>\<open>last\<close> of the
  source), decoding the empty record string returns \<open>lastInstr\<close> itself, equal in
  every field, and no error: the empty record is an identity
  of the decoder's overlay step.
\<close>

theorem parseInstrMapping_empty: "parseInstrMapping lastInstr [] = (lastInstr, None)"
  by (simp add: parseInstrMapping_def)

text \<open>
  C5. The mapping string \<^verbatim>\<open>"1:2:0:-:0;:::i:;3"\<close> is decoded by \<^verbatim>\<open>ParseSourceMap\<close>,
  here for a bytecode of three one-byte instructions. The records of the table are
  \<open>(1, 2, 0, -, 0)\<close>, \<open>(0, 0, 0, i, 0)\<close> and \<open>(3, 0, 0, NUL, 0)\<close>: the second and
  the third are overlaid on the zero record, not on the record before them, so no
  field is inherited. The claim states \<open>(1, 2, 0, i, 0)\<close> and \<open>(3, 2, 0, i, 0)\<close>.
\<close>

theorem ParseSourceMap_inheritance_scenario:
  "ParseSourceMap no_files [] [0x00, 0x00, 0x00] ''1:2:0:-:0;:::i:;3'' =
     Inr \<lparr>Sources = [], PosData = [],
          Instr = [\<lparr>S = 1, L = 2, F = 0, J = CHR ''-'', M = 0\<rparr>,
                   \<lparr>S = 0, L = 0, F = 0, J = CHR ''i'', M = 0\<rparr>,
                   \<lparr>S = 3, L = 0, F = 0, J = CHR 0x00, M = 0\<rparr>]\<rparr>"
  by (simp add: ParseSourceMap_def expandLoop.simps instMappingAt_def instLen_def decode_examples)

text \<open>
  C7. A mapping string of one record and a bytecode of three one-byte instructions:
  the build succeeds, and the second and third instruction receive the zero record,
  not the record \<open>(1, 2, 0, -, 0)\<close> decoded last.
\<close>

theorem ParseSourceMap_underflow_scenario:
  "ParseSourceMap no_files [] [0x00, 0x00, 0x00] ''1:2:0:-:0'' =
     Inr \<lparr>Sources = [], PosData = [],
          Instr = [\<lparr>S = 1, L = 2, F = 0, J = CHR ''-'', M = 0\<rparr>, zeroInstr, zeroInstr]\<rparr>"
  by (simp add: ParseSourceMap_def expandLoop.simps instMappingAt_def instLen_def decode_examples
        decode_empty)




section \<open>Properties of the Position Indexer\<close>

text \<open>
  C1. The Position Indexer on the source text \<^verbatim>\<open>"ab\ncd"\<close> gives offset 0 the
  position (1, 0), offset 1 (1, 1), offset 2 (1, 2), offset 3 (2, 1) and offset 4
  (2, 2): the first byte after the newline has column 1, where the claim states
  column 0, and the byte after it column 2, where the claim states 1. This is the
  table that \<^verbatim>\<open>ParseSourceMap\<close> stores for a file with these contents.
\<close>

theorem indexPositions_ab_newline_cd:
  "indexPositions [CHR ''a'', CHR ''b'', CHR 0x0A, CHR ''c'', CHR ''d''] =
     [\<lparr>Line = 1, Col = 0\<rparr>, \<lparr>Line = 1, Col = 1\<rparr>, \<lparr>Line = 1, Col = 2\<rparr>,
      \<lparr>Line = 2, Col = 1\<rparr>, \<lparr>Line = 2, Col = 2\<rparr>] \<and>
   ParseSourceMap one_file [''a.sol''] [] [] =
     Inr \<lparr>Sources = [''a.sol''],
          PosData = [Some [\<lparr>Line = 1, Col = 0\<rparr>, \<lparr>Line = 1, Col = 1\<rparr>, \<lparr>Line = 1, Col = 2\<rparr>,
                           \<lparr>Line = 2, Col = 1\<rparr>, \<lparr>Line = 2, Col = 2\<rparr>]],
          Instr = []\<rparr>"
  by (simp add: ParseSourceMap_def HasPrefix_def one_file_def expandLoop.simps
        indexPositions_def posLoop.simps decoderune_def zeroLineCol_def)

section \<open>Properties of the Byte Expander\<close>

text \<open>
  C2. A bytecode of the single byte \<open>0x60\<close>, a push opcode whose one byte of push
  data lies past the end: the build succeeds and the instruction table has two
  entries, one more than the bytecode has bytes.
\<close>

theorem truncated_push_table_length:
  "ParseSourceMap no_files [] [0x60] [] =
     Inr \<lparr>Sources = [], PosData = [], Instr = [zeroInstr, zeroInstr]\<rparr>"
  by (simp add: ParseSourceMap_def expandLoop.simps instMappingAt_def instLen_def
        decode_empty)

text \<open>
  C4. Take an iteration of the loop of a successful build, at a bytecode offset \<open>i\<close>
  where the table \<open>instr\<close> holds the \<open>i\<close> entries of the bytes before it (as it
  does throughout a build: the loop starts at offset 0 with the empty table, and each
  iteration appends as many entries as it consumes bytes). One record \<open>m\<close> is decoded
  for the instruction. If the opcode at \<open>i\<close> is \<open>0x60 + k\<close> with \<open>k\<close> from 0 to 31,
  the iteration consumes exactly \<open>2 + k\<close> bytes (the loop goes on at offset
  \<open>i + (2 + k)\<close> with the next record and \<open>2 + k\<close> more entries) and the entries of
  the final table at the offsets \<open>i\<close> to \<open>i + (2 + k) - 1\<close> are all \<open>m\<close>. If the opcode
  is outside \<open>0x60..0x7f\<close>, the iteration consumes exactly 1 byte and writes \<open>m\<close> at
  offset \<open>i\<close>.
\<close>

theorem byte_expander_instruction_length:
  assumes "i < length bytecode"
    and "length instr = i"
    and "expandLoop instructions bytecode i instIndex lastInstr instr = Inr res"
  shows "\<exists>m. parseInstrMapping lastInstr (instMappingAt instructions instIndex) = (m, None) \<and>
           (\<forall>k. k \<le> 31 \<and> bytecode ! i = 0x60 + of_nat k \<longrightarrow>
              expandLoop instructions bytecode i instIndex lastInstr instr =
                expandLoop instructions bytecode (i + (2 + k)) (instIndex + 1) lastInstr
                  (instr @ replicate (2 + k) m) \<and>
              (\<forall>j<2 + k. res ! (i + j) = m)) \<and>
           (bytecode ! i < 0x60 \<or> 0x7f < bytecode ! i \<longrightarrow>
              expandLoop instructions bytecode i instIndex lastInstr instr =
                expandLoop instructions bytecode (i + 1) (instIndex + 1) lastInstr (instr @ [m]) \<and>
              res ! i = m)"
proof -
  from expandLoop_Inr_parse [OF assms(1,3)]
  obtain m where p: "parseInstrMapping lastInstr (instMappingAt instructions instIndex) = (m, None)" ..
  note step = expandLoop_step [OF assms(1) p, of instr]
  have written: "res ! (i + j) = m" if "j < instLen (bytecode ! i)" for j
    using expandLoop_written_nth [OF assms(1) p assms(3) that] assms(2) by simp
  have push: "expandLoop instructions bytecode i instIndex lastInstr instr =
                expandLoop instructions bytecode (i + (2 + k)) (instIndex + 1) lastInstr
                  (instr @ replicate (2 + k) m) \<and>
              (\<forall>j<2 + k. res ! (i + j) = m)"
    if "k \<le> 31" "bytecode ! i = 0x60 + of_nat k" for k
    using step written instLen_push [OF that(1)] that(2) by simp
  have other: "expandLoop instructions bytecode i instIndex lastInstr instr =
                expandLoop instructions bytecode (i + 1) (instIndex + 1) lastInstr (instr @ [m]) \<and>
              res ! i = m"
    if "bytecode ! i < 0x60 \<or> 0x7f < bytecode ! i"
    using step written [of 0] instLen_other [OF that] by simp
  from p push other show ?thesis by blast
qed

theorem byte_expander_instruction_length_witness:
  "(0 :: nat) < length [0x61, 0xAA, 0xBB, 0x00 :: byte] \<and>
   length ([] :: InstrMapping list) = 0 \<and>
   expandLoop [''1'', ''3''] [0x61, 0xAA, 0xBB, 0x00] 0 0 zeroInstr [] = Inr expanded_example \<and>
   (1 :: nat) \<le> 31 \<and> [0x61, 0xAA, 0xBB, 0x00 :: byte] ! 0 = 0x60 + of_nat 1 \<and>
   (\<exists>m. parseInstrMapping zeroInstr (instMappingAt [''1'', ''3''] 0) = (m, None) \<and>
        expandLoop [''1'', ''3''] [0x61, 0xAA, 0xBB, 0x00] 0 0 zeroInstr [] =
          expandLoop [''1'', ''3''] [0x61, 0xAA, 0xBB, 0x00] (0 + (2 + 1)) (0 + 1) zeroInstr
            ([] @ replicate (2 + 1) m) \<and>
        expanded_example ! (0 + 0) = m \<and> expanded_example ! (0 + 1) = m \<and>
        expanded_example ! (0 + 2) = m) \<and>
   (3 :: nat) < length [0x61, 0xAA, 0xBB, 0x00 :: byte] \<and>
   length (take 3 expanded_example) = 3 \<and>
   expandLoop [''1'', ''3''] [0x61, 0xAA, 0xBB, 0x00] 3 1 zeroInstr (take 3 expanded_example) =
     Inr expanded_example \<and>
   [0x61, 0xAA, 0xBB, 0x00 :: byte] ! 3 < 0x60 \<and>
   (\<exists>m. parseInstrMapping zeroInstr (instMappingAt [''1'', ''3''] 1) = (m, None) \<and>
        expandLoop [''1'', ''3''] [0x61, 0xAA, 0xBB, 0x00] 3 1 zeroInstr (take 3 expanded_example) =
          expandLoop [''1'', ''3''] [0x61, 0xAA, 0xBB, 0x00] (3 + 1) (1 + 1) zeroInstr
            (take 3 expanded_example @ [m]) \<and>
        expanded_example ! 3 = m)"
proof -
  let ?bc = "[0x61, 0xAA, 0xBB, 0x00 :: byte]"
  let ?I = "[''1'', ''3'']"
  have i0: "(0 :: nat) < length ?bc" and i3: "(3 :: nat) < length ?bc" by simp_all
  have l0: "length ([] :: InstrMapping list) = 0" by simp
  have l3: "length (take 3 expanded_example) = 3" by (simp add: expanded_example_def)
  have k: "(1 :: nat) \<le> 31 \<and> ?bc ! 0 = 0x60 + of_nat 1" by simp
  have lt: "?bc ! 3 < 0x60" by simp
  then have o: "?bc ! 3 < 0x60 \<or> 0x7f < ?bc ! 3" ..
  from byte_expander_instruction_length [OF i0 l0 expand_example(2)]
  obtain m where a: "parseInstrMapping zeroInstr (instMappingAt ?I 0) = (m, None)"
    and b: "\<forall>k. k \<le> 31 \<and> ?bc ! 0 = 0x60 + of_nat k \<longrightarrow>
              expandLoop ?I ?bc 0 0 zeroInstr [] =
                expandLoop ?I ?bc (0 + (2 + k)) (0 + 1) zeroInstr ([] @ replicate (2 + k) m) \<and>
              (\<forall>j<2 + k. expanded_example ! (0 + j) = m)"
    by (elim exE conjE)
  from b k have push: "expandLoop ?I ?bc 0 0 zeroInstr [] =
                expandLoop ?I ?bc (0 + (2 + 1)) (0 + 1) zeroInstr ([] @ replicate (2 + 1) m)"
    and entries: "\<forall>j<2 + 1. expanded_example ! (0 + j) = m"
    by blast+
  from entries have e: "expanded_example ! (0 + 0) = m" "expanded_example ! (0 + 1) = m"
    "expanded_example ! (0 + 2) = m"
    by simp_all
  from byte_expander_instruction_length [OF i3 l3 expand_example(1)]
  obtain m' where a': "parseInstrMapping zeroInstr (instMappingAt ?I 1) = (m', None)"
    and b': "?bc ! 3 < 0x60 \<or> 0x7f < ?bc ! 3 \<longrightarrow>
              expandLoop ?I ?bc 3 1 zeroInstr (take 3 expanded_example) =
                expandLoop ?I ?bc (3 + 1) (1 + 1) zeroInstr (take 3 expanded_example @ [m']) \<and>
              expanded_example ! 3 = m'"
    by (elim exE conjE)
  from b' o have other: "expandLoop ?I ?bc 3 1 zeroInstr (take 3 expanded_example) =
                expandLoop ?I ?bc (3 + 1) (1 + 1) zeroInstr (take 3 expanded_example @ [m'])"
    and e3: "expanded_example ! 3 = m'"
    by blast+
  from a push e have p1: "\<exists>m. parseInstrMapping zeroInstr (instMappingAt ?I 0) = (m, None) \<and>
        expandLoop ?I ?bc 0 0 zeroInstr [] =
          expandLoop ?I ?bc (0 + (2 + 1)) (0 + 1) zeroInstr ([] @ replicate (2 + 1) m) \<and>
        expanded_example ! (0 + 0) = m \<and> expanded_example ! (0 + 1) = m \<and>
        expanded_example ! (0 + 2) = m"
    by blast
  from a' other e3 have p2: "\<exists>m. parseInstrMapping zeroInstr (instMappingAt ?I 1) = (m, None) \<and>
        expandLoop ?I ?bc 3 1 zeroInstr (take 3 expanded_example) =
          expandLoop ?I ?bc (3 + 1) (1 + 1) zeroInstr (take 3 expanded_example @ [m]) \<and>
        expanded_example ! 3 = m"
    by blast
  show ?thesis
    by (intro conjI i0 l0 expand_example(2) k [THEN conjunct1] k [THEN conjunct2] p1 i3 l3
          expand_example(1) lt p2)
qed

section \<open>Properties of the lookup\<close>

text \<open>
  C6. For every program counter within the instruction table whose record has a file
  index that is not negative and not below the number of sources, \<^verbatim>\<open>Info\<close>
  returns the name \<^verbatim>\<open>"unknown"\<close>, line 0 and column 0; it does not panic.
\<close>

theorem Info_unknown_file:
  assumes "unat pc < length (Instr s)"
    and "0 \<le> sint (F (Instr s ! unat pc))"
    and "int (length (Sources s)) \<le> sint (F (Instr s ! unat pc))"
  shows "Info s pc = Inr (''unknown'', 0, 0)"
proof -
  have "sint (F (Instr s ! unat pc)) < 2 ^ 31"
    using sint_lt [of "F (Instr s ! unat pc)"] by simp
  with assms(3) have "int (length (Sources s)) < 2 ^ 31" by linarith
  then have "sint (of_nat (length (Sources s)) :: int32) = int (length (Sources s))"
    by (rule sint_of_nat_small)
  with assms show ?thesis
    by (simp add: Info_def Let_def)
qed

theorem Info_unknown_file_witness:
  "unat (0 :: 64 word) < length (Instr unknown_file_map) \<and>
   0 \<le> sint (F (Instr unknown_file_map ! unat (0 :: 64 word))) \<and>
   int (length (Sources unknown_file_map)) \<le> sint (F (Instr unknown_file_map ! unat (0 :: 64 word))) \<and>
   Info unknown_file_map 0 = Inr (''unknown'', 0, 0)"
proof -
  have h: "unat (0 :: 64 word) < length (Instr unknown_file_map)"
    "0 \<le> sint (F (Instr unknown_file_map ! unat (0 :: 64 word)))"
    "int (length (Sources unknown_file_map)) \<le> sint (F (Instr unknown_file_map ! unat (0 :: 64 word)))"
    by (simp_all add: unknown_file_map_def)
  from Info_unknown_file [OF h] h show ?thesis by simp
qed

text \<open>
  C3. \<^verbatim>\<open>Info\<close> does not compare the start offset of a record with the length of
  the position table. There is a source map that \<^verbatim>\<open>ParseSourceMap\<close> builds
  (from the file \<^verbatim>\<open>a.sol\<close> of five bytes, one byte of bytecode and the mapping
  \<^verbatim>\<open>"5:1:0"\<close>) with a record whose file index is within the sources, whose file has
  a position table, and whose start offset is not negative and not below the length
  of that table; \<^verbatim>\<open>Info\<close> at its program counter is the panic of an index out of
  range.
\<close>

theorem Info_start_unchecked:
  "\<exists>fs sources bytecode sourceMap sm pc tbl.
     ParseSourceMap fs sources bytecode sourceMap = Inr sm \<and>
     unat pc < length (Instr sm) \<and>
     0 \<le> sint (F (Instr sm ! unat pc)) \<and>
     nat (sint (F (Instr sm ! unat pc))) < length (Sources sm) \<and>
     PosData sm ! nat (sint (F (Instr sm ! unat pc))) = Some tbl \<and>
     0 \<le> sint (S (Instr sm ! unat pc)) \<and>
     length tbl \<le> nat (sint (S (Instr sm ! unat pc))) \<and>
     Info sm pc = Inl (IndexOutOfRange (sint (S (Instr sm ! unat pc))) (length tbl))"
proof -
  let ?sm = start_past_end_map
  have built: "ParseSourceMap one_file [''a.sol''] [0x00] ''5:1:0'' = Inr ?sm"
    by (rule build_start_past_end_map)
  have pc: "unat (0 :: 64 word) < length (Instr ?sm)"
    and f: "0 \<le> sint (F (Instr ?sm ! unat (0 :: 64 word)))"
      "sint (F (Instr ?sm ! unat (0 :: 64 word))) < sint (of_nat (length (Sources ?sm)) :: int32)"
      "nat (sint (F (Instr ?sm ! unat (0 :: 64 word)))) < length (Sources ?sm)"
      "nat (sint (F (Instr ?sm ! unat (0 :: 64 word)))) < length (PosData ?sm)"
    and tbl: "PosData ?sm ! nat (sint (F (Instr ?sm ! unat (0 :: 64 word)))) = Some example_positions"
    and s: "0 \<le> sint (S (Instr ?sm ! unat (0 :: 64 word)))"
      "length example_positions \<le> nat (sint (S (Instr ?sm ! unat (0 :: 64 word))))"
    by (simp_all add: start_past_end_map_def example_positions_def)
  have "Info ?sm 0 =
          Inl (IndexOutOfRange (sint (S (Instr ?sm ! unat (0 :: 64 word)))) (length example_positions))"
    by (rule Info_start_out_of_range [OF pc f(1,2,4) tbl s])
  with built pc f(1,3) tbl s show ?thesis by blast
qed

text \<open>
  C10. After a successful \<^verbatim>\<open>ParseSourceMap\<close>, \<^verbatim>\<open>PosData\<close> has one entry for each
  source name, and the entry is \<^verbatim>\<open>nil\<close> exactly when the name starts with
  \<^verbatim>\<open>~\<close>. Such a file is never read: a file system that differs on those names
  only gives the same result. Hence a file index that passes the two checks of
  \<^verbatim>\<open>Info\<close> (not negative, below \<^verbatim>\<open>int32(len(s.Sources))\<close>) is an index within
  \<^verbatim>\<open>PosData\<close>.
\<close>

theorem PosData_matches_Sources:
  assumes "ParseSourceMap fs sources bytecode sourceMap = Inr sm"
  shows "Sources sm = sources \<and> length (PosData sm) = length (Sources sm) \<and>
         (\<forall>i<length (Sources sm). (PosData sm ! i = None) = HasPrefix (Sources sm ! i) ''~'') \<and>
         (\<forall>fs'. (\<forall>s\<in>set sources. \<not> HasPrefix s ''~'' \<longrightarrow> fs' s = fs s) \<longrightarrow>
                ParseSourceMap fs' sources bytecode sourceMap = Inr sm) \<and>
         (\<forall>f :: int32. 0 \<le> sint f \<and> sint f < sint (of_nat (length (Sources sm)) :: int32) \<longrightarrow>
                nat (sint f) < length (PosData sm))"
proof -
  from assms obtain pd ins where pd: "readSources fs sources 0 [] = Inr pd"
    and sm: "sm = \<lparr>Sources = sources, PosData = pd, Instr = ins\<rparr>"
    by (auto simp: ParseSourceMap_def Let_def split: sum.splits)
  from readSources_Inr [OF pd]
  have pd_eq: "pd = map (\<lambda>s. if HasPrefix s ''~'' then None
                              else Some (indexPositions (projr (fs s)))) sources"
    by simp
  have len: "length (PosData sm) = length (Sources sm)"
    using sm pd_eq by simp
  have nil: "\<forall>i<length (Sources sm). (PosData sm ! i = None) = HasPrefix (Sources sm ! i) ''~''"
    using sm pd_eq by simp
  have unread: "ParseSourceMap fs' sources bytecode sourceMap = Inr sm"
    if "\<forall>s\<in>set sources. \<not> HasPrefix s ''~'' \<longrightarrow> fs' s = fs s" for fs'
  proof -
    from that have "readSources fs' sources 0 [] = readSources fs sources 0 []"
      by (intro readSources_cong) simp
    with assms show ?thesis by (simp add: ParseSourceMap_def)
  qed
  have bound: "nat (sint f) < length (PosData sm)"
    if "0 \<le> sint f \<and> sint f < sint (of_nat (length (Sources sm)) :: int32)" for f :: int32
    using that sint_of_nat_le [of "length (Sources sm)"] len by linarith
  from sm len nil unread bound show ?thesis by simp
qed

theorem PosData_matches_Sources_witness:
  "ParseSourceMap one_file [''~gen'', ''a.sol''] [0x00] ''0:1:1'' = Inr example_map \<and>
   Sources example_map = [''~gen'', ''a.sol''] \<and>
   length (PosData example_map) = length (Sources example_map) \<and>
   (PosData example_map ! 0 = None) = HasPrefix (Sources example_map ! 0) ''~'' \<and>
   (PosData example_map ! 1 = None) = HasPrefix (Sources example_map ! 1) ''~'' \<and>
   HasPrefix (Sources example_map ! 0) ''~'' \<and>
   two_files ''a.sol'' = one_file ''a.sol'' \<and>
   ParseSourceMap two_files [''~gen'', ''a.sol''] [0x00] ''0:1:1'' = Inr example_map \<and>
   0 \<le> sint (1 :: int32) \<and>
   sint (1 :: int32) < sint (of_nat (length (Sources example_map)) :: int32) \<and>
   nat (sint (1 :: int32)) < length (PosData example_map)"
proof -
  have built: "ParseSourceMap one_file [''~gen'', ''a.sol''] [0x00] ''0:1:1'' = Inr example_map"
    by (rule build_example_map)
  note c = PosData_matches_Sources [OF built]
  have same: "\<forall>s\<in>set [''~gen'', ''a.sol'']. \<not> HasPrefix s ''~'' \<longrightarrow> two_files s = one_file s"
    by (simp add: two_files_def HasPrefix_def)
  have idx: "0 \<le> sint (1 :: int32) \<and> sint (1 :: int32) < sint (of_nat (length (Sources example_map)) :: int32)"
    by (simp add: example_map_def)
  from c have c1: "Sources example_map = [''~gen'', ''a.sol'']"
    and c2: "length (PosData example_map) = length (Sources example_map)"
    and c3: "\<forall>i<length (Sources example_map).
               (PosData example_map ! i = None) = HasPrefix (Sources example_map ! i) ''~''"
    and c4: "\<forall>fs'. (\<forall>s\<in>set [''~gen'', ''a.sol'']. \<not> HasPrefix s ''~'' \<longrightarrow> fs' s = one_file s) \<longrightarrow>
               ParseSourceMap fs' [''~gen'', ''a.sol''] [0x00] ''0:1:1'' = Inr example_map"
    and c5: "\<forall>f :: int32. 0 \<le> sint f \<and> sint f < sint (of_nat (length (Sources example_map)) :: int32) \<longrightarrow>
               nat (sint f) < length (PosData example_map)"
    by blast+
  from c3 c1 have n0: "(PosData example_map ! 0 = None) = HasPrefix (Sources example_map ! 0) ''~''"
    and n1: "(PosData example_map ! 1 = None) = HasPrefix (Sources example_map ! 1) ''~''"
    by simp_all
  have s0: "HasPrefix (Sources example_map ! 0) ''~''"
    by (simp add: example_map_def HasPrefix_def)
  have t: "two_files ''a.sol'' = one_file ''a.sol''"
    by (simp add: two_files_def)
  from c4 same have other: "ParseSourceMap two_files [''~gen'', ''a.sol''] [0x00] ''0:1:1'' = Inr example_map"
    by blast
  from c5 idx have b: "nat (sint (1 :: int32)) < length (PosData example_map)"
    by blast
  from built c1 c2 n0 n1 s0 t other idx b show ?thesis by blast
qed

end
